theory Spec2Isabelle
  imports Main "HOL-Library.AList"
begin

section \<open>Data model of the filesystem controller (internal/sddp.go)\<close>

text \<open>
  Identifiers are the unsigned 64-bit \<open>fuseops.InodeID\<close>, \<open>fuseops.HandleID\<close> and
  \<open>fuseops.DirOffset\<close>: naturals below \<open>2^64\<close>, whose increment wraps around
  (\<open>incr64\<close>). A \<open>time.Time\<close> is a number of clock ticks, a \<open>time.Duration\<close> a signed
  number of ticks. A pointer to an inode object is the index of the object in the heap.
\<close>

type_synonym InodeID = nat
type_synonym HandleID = nat
type_synonym DirOffset = nat
type_synonym InodePtr = nat
type_synonym Time = int
type_synonym Duration = int

definition incr64 :: "nat \<Rightarrow> nat" where
  "incr64 n = (n + 1) mod 2 ^ 64"

definition RootInodeID :: InodeID where
  "RootInodeID = 1"

text \<open>
  Errors as values: the two errno values the controller returns itself, the construction
  error of \<open>NewFusera\<close>, an error handed back by a collaborator, and a Go panic (which
  is not a returned error: the request never completes).
\<close>

datatype error = ENOENT | ERANGE | InvalidSize | External nat | Panic

datatype DirentType =
  DT_Unknown | DT_Socket | DT_Link | DT_File | DT_Block | DT_Directory | DT_Char | DT_FIFO

record InodeAttributes =
  Size :: nat
  Mtime :: Time

text \<open>
  Modelled from the spec: the type declarations of \<open>Inode\<close>, its directory data,
  \<open>DirHandleEntry\<close>, \<open>DirHandle\<close>, \<open>FileHandle\<close> and \<open>FlagStorage\<close> are not part of
  sddp.go. The fields are the ones sddp.go reads and writes; the spec's data model gives
  the child map as name to child, the parent as a link that does not own, the kind as File
  or Directory, and the content tag and the storage class of a listing entry as optional.

  The inode objects live in \<open>heap\<close>, in the order of their allocation; the table
  \<open>inodes\<close>, the child maps, the parent links and the handles hold pointers into it, as
  the Go code holds \<open>*Inode\<close>. The heap is the state of the program that the
  \<open>Fusera\<close> struct points into, and is kept with it. An inode that \<open>NewInode\<close> has
  made is a value of its own until \<open>insertInode\<close> registers it: until then nothing
  else points to it.
\<close>

datatype Kind = File | Directory

record DirInodeData =
  DirTime :: Time
  Children :: "(string \<times> InodePtr) list"

record Inode =
  Id' :: InodeID
  Name :: string
  FullName :: string
  Parent :: "InodePtr option"
  kind :: Kind
  Attributes :: InodeAttributes
  KnownSize :: "nat option"
  AttrTime :: Time
  dir :: DirInodeData
  refcnt :: nat
  s3Metadata :: "string \<rightharpoonup> string"
  Link :: string
  inoFileHandles :: nat

record DirHandleEntry =
  en_Name :: string
  en_Inode :: InodeID
  en_Type :: DirentType
  en_Offset :: DirOffset
  en_Attributes :: InodeAttributes
  en_ETag :: "string option"
  en_StorageClass :: "string option"

record Dirent =
  d_Name :: string
  d_Type :: DirentType
  d_Inode :: InodeID
  d_Offset :: DirOffset

record DirHandle =
  dh_inode :: InodePtr

record FileHandle =
  fh_inode :: InodePtr
  fh_dirty :: bool

record FlagStorage =
  StatCacheTTL :: Duration
  TypeCacheTTL :: Duration

record NrFile =
  nf_Name :: string
  nf_Link :: string
  nf_Size :: string

record Accession =
  acc_ID :: string
  acc_Files :: "NrFile list"

record Fusera =
  accs :: "Accession list"
  flags :: FlagStorage
  umask :: nat
  rootAttrs :: InodeAttributes
  nextInodeID :: InodeID
  inodes :: "InodeID \<rightharpoonup> InodePtr"
  nextHandleID :: HandleID
  dirHandles :: "HandleID \<rightharpoonup> DirHandle"
  fileHandles :: "HandleID \<rightharpoonup> FileHandle"
  forgotCnt :: nat
  heap :: "Inode list"

text \<open>The attributes handed to the kernel (\<open>fuseops.InodeAttributes\<close>).\<close>

record FuseAttributes =
  fa_Size :: nat
  fa_Mtime :: Time
  fa_IsDir :: bool

record ChildInodeEntry =
  ce_Child :: InodeID
  ce_Attributes :: FuseAttributes
  ce_AttributesExpiration :: Time
  ce_EntryExpiration :: Time

record GetInodeAttributesOp =
  ga_Attributes :: FuseAttributes
  ga_AttributesExpiration :: Time


record ReadDirOp =
  rd_Handle :: HandleID
  rd_Offset :: DirOffset
  rd_DstLen :: nat
  rd_Written :: "Dirent list"
  rd_BytesRead :: nat

section \<open>The heap of inode objects\<close>

text \<open>
  A read through a pointer, a write through a pointer, and the allocation of an object. A
  Go pointer to an inode always points to an object; \<open>None\<close> stands for a pointer beyond
  the heap, which the program cannot hold.
\<close>

definition deref :: "Fusera \<Rightarrow> InodePtr \<Rightarrow> Inode option" where
  "deref fs p = (if p < length (heap fs) then Some (heap fs ! p) else None)"

definition modifyInode :: "InodePtr \<Rightarrow> (Inode \<Rightarrow> Inode) \<Rightarrow> Fusera \<Rightarrow> Fusera" where
  "modifyInode p f fs =
     (case deref fs p of
        None \<Rightarrow> fs
      | Some inode \<Rightarrow> fs\<lparr>heap := (heap fs)[p := f inode]\<rparr>)"

definition newObject :: "Inode \<Rightarrow> Fusera \<Rightarrow> InodePtr \<times> Fusera" where
  "newObject inode fs = (length (heap fs), fs\<lparr>heap := heap fs @ [inode]\<rparr>)"

section \<open>Helpers of the Inode type\<close>

text \<open>
  Modelled from the spec: \<open>NewInode\<close> is not part of sddp.go. It makes an inode of the
  given parent, name and full path; the inode is a File until \<open>ToDir\<close> makes it a
  Directory, has no children, and holds one reference (sddp.go resets the refcount to zero
  where the spec wants zero).
\<close>

definition NewInode :: "InodePtr option \<Rightarrow> string \<Rightarrow> string \<Rightarrow> Inode" where
  "NewInode parent name fullName =
     \<lparr>Id' = 0, Name = name, FullName = fullName, Parent = parent, kind = File,
      Attributes = \<lparr>Size = 0, Mtime = 0\<rparr>, KnownSize = None, AttrTime = 0,
      dir = \<lparr>DirTime = 0, Children = []\<rparr>, refcnt = 1, s3Metadata = Map.empty,
      Link = [], inoFileHandles = 0\<rparr>"

text \<open>Modelled from the spec: \<open>ToDir\<close> is not part of sddp.go; it makes the inode a Directory.\<close>

definition ToDir :: "Inode \<Rightarrow> Inode" where
  "ToDir inode = inode\<lparr>kind := Directory, dir := \<lparr>DirTime = 0, Children = []\<rparr>\<rparr>"

text \<open>
  Modelled from the spec: \<open>touch\<close> is not part of sddp.go; it stamps the inode's mtime
  with the reading of the clock.
\<close>

definition touch :: "Time \<Rightarrow> Inode \<Rightarrow> Inode" where
  "touch now inode = inode\<lparr>Attributes := (Attributes inode)\<lparr>Mtime := now\<rparr>\<rparr>"

text \<open>
  Modelled from the spec: \<open>getChildName\<close> is not part of sddp.go; it gives the full path
  of a child, the parent's full path and the name (the root's own path is empty).
\<close>

definition getChildName :: "Inode \<Rightarrow> string \<Rightarrow> string" where
  "getChildName parent name =
     (if Id' parent = RootInodeID then name else FullName parent @ ''/'' @ name)"

text \<open>
  Modelled from the spec: \<open>InflateAttributes\<close> is not part of sddp.go. The spec gives an
  inode the attributes size, mtime and a mode fixed by its kind; the snapshot carries
  them.
\<close>

definition InflateAttributes :: "Inode \<Rightarrow> FuseAttributes" where
  "InflateAttributes inode =
     \<lparr>fa_Size = Size (Attributes inode), fa_Mtime = Mtime (Attributes inode),
      fa_IsDir = (kind inode = Directory)\<rparr>"

text \<open>
  Modelled from the spec: \<open>Inode.GetAttributes\<close> is not part of sddp.go. The spec has
  it return a snapshot of the inode's attributes.
\<close>

definition Inode_GetAttributes :: "Inode \<Rightarrow> error + FuseAttributes" where
  "Inode_GetAttributes inode = Inr (InflateAttributes inode)"

text \<open>Modelled from the spec: \<open>Inode.Ref\<close> is not part of sddp.go; it increments the refcount.\<close>

definition Ref :: "Inode \<Rightarrow> Inode" where
  "Ref inode = inode\<lparr>refcnt := refcnt inode + 1\<rparr>"

text \<open>
  Modelled from the spec: the child-map helpers are not part of sddp.go. The child map
  takes a name to the child. A search by name finds the child of that name, as the pointer
  and the object; a search by name and kind finds it when its kind is the one asked for.
  \<open>insertChildUnlocked\<close> registers the child (the object \<open>inode\<close> at \<open>c\<close>) under its
  name. \<open>findChildMaxTime\<close> is the maximum mtime over the children (the zero time when
  there is none).
\<close>

definition findChildUnlockedFull :: "Fusera \<Rightarrow> Inode \<Rightarrow> string \<Rightarrow> (InodePtr \<times> Inode) option" where
  "findChildUnlockedFull fs parent name =
     (case map_of (Children (dir parent)) name of
        None \<Rightarrow> None
      | Some c \<Rightarrow> (case deref fs c of None \<Rightarrow> None | Some inode \<Rightarrow> Some (c, inode)))"


definition insertChildUnlocked :: "InodePtr \<Rightarrow> Inode \<Rightarrow> Inode \<Rightarrow> Inode" where
  "insertChildUnlocked c inode parent =
     parent\<lparr>dir := (dir parent)\<lparr>Children :=
       AList.update (Name inode) c (Children (dir parent))\<rparr>\<rparr>"



section \<open>Operations of sddp.go\<close>

text \<open>\<open>allocateInodeId\<close>: \<open>fs.nextInodeID++\<close> on an unsigned 64-bit counter.\<close>

definition allocateInodeId :: "Fusera \<Rightarrow> InodeID \<times> Fusera" where
  "allocateInodeId fs = (nextInodeID fs, fs\<lparr>nextInodeID := incr64 (nextInodeID fs)\<rparr>)"

text \<open>\<open>getInodeOrDie\<close>: find the given inode, panic if it does not exist.\<close>

definition getInodeOrDie :: "Fusera \<Rightarrow> InodeID \<Rightarrow> error + InodePtr" where
  "getInodeOrDie fs ident =
     (case inodes fs ident of None \<Rightarrow> Inl Panic | Some inode \<Rightarrow> Inr inode)"

text \<open>
  \<open>GetInodeAttributes\<close>. \<open>now\<close> is the reading of \<open>time.Now()\<close>. The op's output
  fields are written only when the inode's \<open>GetAttributes\<close> returns no error.
\<close>

definition GetInodeAttributes :: "Fusera \<Rightarrow> InodeID \<Rightarrow> Time \<Rightarrow> error + GetInodeAttributesOp" where
  "GetInodeAttributes fs opInode now =
     (case getInodeOrDie fs opInode of
        Inl e \<Rightarrow> Inl e
      | Inr p \<Rightarrow>
          (case deref fs p of
             None \<Rightarrow> Inl Panic
           | Some inode \<Rightarrow>
               (case Inode_GetAttributes inode of
                  Inl e \<Rightarrow> Inl e
                | Inr attr \<Rightarrow>
                    Inr \<lparr>ga_Attributes = attr,
                         ga_AttributesExpiration = now + StatCacheTTL (flags fs)\<rparr>)))"





text \<open>
  \<open>LookUpInode\<close>. \<open>now1\<close> and \<open>now2\<close> are the two readings of \<open>time.Now()\<close>. The
  result is the filesystem as the call leaves it and either the returned error or the
  entry written to the op.
\<close>

definition LookUpInode ::
  "Fusera \<Rightarrow> InodeID \<Rightarrow> string \<Rightarrow> Time \<Rightarrow> Time \<Rightarrow> Fusera \<times> (error + ChildInodeEntry)" where
  "LookUpInode fs opParent opName now1 now2 =
     (case getInodeOrDie fs opParent of
        Inl e \<Rightarrow> (fs, Inl e)
      | Inr pp \<Rightarrow>
          (case deref fs pp of
             None \<Rightarrow> (fs, Inl Panic)
           | Some parent \<Rightarrow>
               (case findChildUnlockedFull fs parent opName of
                  None \<Rightarrow> (fs, Inl ENOENT)
                | Some (c, found) \<Rightarrow>
                    (let fs1 = modifyInode c Ref fs;
                         inode = Ref found
                     in (fs1,
                         Inr \<lparr>ce_Child = Id' inode,
                              ce_Attributes = InflateAttributes inode,
                              ce_AttributesExpiration = now1 + StatCacheTTL (flags fs1),
                              ce_EntryExpiration = now2 + TypeCacheTTL (flags fs1)\<rparr>)))))"

text \<open>
  \<open>insertInode\<close>: the inode gets the next id, the parent (the object at \<open>pk\<close>)
  registers it as a child, and the table takes it under its id. The inode is the object
  at the pointer returned.
\<close>

definition insertInode :: "Fusera \<Rightarrow> InodePtr \<Rightarrow> Inode \<Rightarrow> Fusera \<times> InodePtr" where
  "insertInode fs pk inode =
     (case allocateInodeId fs of (ident, fs1) \<Rightarrow>
        (let inode1 = inode\<lparr>Id' := ident\<rparr> in
         case newObject inode1 fs1 of (p, fs2) \<Rightarrow>
           (let fs3 = modifyInode pk (insertChildUnlocked p inode1) fs2
            in (fs3\<lparr>inodes := (inodes fs3)(ident \<mapsto> p)\<rparr>, p))))"

definition setETag :: "string option \<Rightarrow> Inode \<Rightarrow> Inode" where
  "setETag etag inode =
     (case etag of
        None \<Rightarrow> inode
      | Some t \<Rightarrow> inode\<lparr>s3Metadata := (s3Metadata inode)(''etag'' \<mapsto> t)\<rparr>)"

definition setStorageClass :: "string option \<Rightarrow> Inode \<Rightarrow> Inode" where
  "setStorageClass sc inode =
     (case sc of
        None \<Rightarrow> inode
      | Some c \<Rightarrow> inode\<lparr>s3Metadata := (s3Metadata inode)(''storage-class'' \<mapsto> c)\<rparr>)"












text \<open>
  Modelled from the spec: \<open>Inode.OpenDir\<close> and \<open>NewFileHandle\<close> are not part of
  sddp.go; they make a handle bound to the inode.
\<close>

definition Inode_OpenDir :: "InodePtr \<Rightarrow> DirHandle" where
  "Inode_OpenDir p = \<lparr>dh_inode = p\<rparr>"

definition NewFileHandle :: "InodePtr \<Rightarrow> FileHandle" where
  "NewFileHandle p = \<lparr>fh_inode = p, fh_dirty = False\<rparr>"

text \<open>
  \<open>OpenDir\<close> and \<open>OpenFile\<close> take the handle id from the one counter
  \<open>nextHandleID\<close>. The inode's own \<open>OpenFile\<close> is not part of sddp.go and is a
  parameter \<open>openf\<close>: the file handle, or an error.
\<close>

definition OpenDir :: "Fusera \<Rightarrow> InodeID \<Rightarrow> Fusera \<times> (error + HandleID)" where
  "OpenDir fs opInode =
     (let handleID = nextHandleID fs;
          fs1 = fs\<lparr>nextHandleID := incr64 (nextHandleID fs)\<rparr>
      in case getInodeOrDie fs1 opInode of
           Inl e \<Rightarrow> (fs1, Inl e)
         | Inr inode \<Rightarrow>
             (let dh = Inode_OpenDir inode
              in (fs1\<lparr>dirHandles := (dirHandles fs1)(handleID \<mapsto> dh)\<rparr>, Inr handleID)))"




section \<open>Construction\<close>

text \<open>
  \<open>strconv.ParseUint(s, 10, 64)\<close> of the Go library: the empty string and a character
  that is not a decimal digit are syntax errors, a value beyond \<open>2^64 - 1\<close> is a range
  error. \<open>NewFusera\<close> replaces either error by its own.
\<close>

definition digitOf :: "char \<Rightarrow> nat option" where
  "digitOf c =
     (if 48 \<le> (of_char c :: nat) \<and> (of_char c :: nat) \<le> 57
      then Some (of_char c - 48) else None)"

definition maxUint64 :: nat where
  "maxUint64 = 18446744073709551615"

fun ParseUint_loop :: "string \<Rightarrow> nat \<Rightarrow> nat option" where
  "ParseUint_loop [] n = Some n"
| "ParseUint_loop (c # cs) n =
     (case digitOf c of
        None \<Rightarrow> None
      | Some d \<Rightarrow>
          if maxUint64 div 10 + 1 \<le> n then None
          else if maxUint64 < n * 10 + d then None
          else ParseUint_loop cs (n * 10 + d))"

definition ParseUint :: "string \<Rightarrow> nat option" where
  "ParseUint s = (if s = [] then None else ParseUint_loop s 0)"

text \<open>
  The inner loop of \<open>NewFusera\<close> over the files of one accession. \<open>dk\<close> is the pointer
  to the accession's directory; the state is the filesystem and the number of readings
  taken from the clock so far, \<open>clk t\<close> being reading \<open>t\<close>. The file handle points to
  the file's inode, the object that \<open>insertInode\<close> then puts at the end of the heap.
\<close>

fun NewFusera_files ::
  "(nat \<Rightarrow> Time) \<Rightarrow> InodePtr \<Rightarrow> NrFile list \<Rightarrow> Fusera \<times> nat \<Rightarrow> error + Fusera \<times> nat" where
  "NewFusera_files clk dk [] (fs, t) = Inr (fs, t)"
| "NewFusera_files clk dk (f # files) (fs, t) =
     (case deref fs dk of
        None \<Rightarrow> Inl Panic
      | Some d \<Rightarrow>
          (let fullFileName = getChildName d (nf_Name f);
               file0 = (NewInode (Some dk) (nf_Name f) fullFileName)\<lparr>Link := nf_Link f\<rparr>
           in case ParseUint (nf_Size f) of
                None \<Rightarrow> Inl InvalidSize
              | Some u \<Rightarrow>
                  (let file1 = file0\<lparr>Attributes := \<lparr>Size = u, Mtime = clk t\<rparr>\<rparr>;
                       fh = (NewFileHandle (length (heap fs)))\<lparr>fh_dirty := True\<rparr>;
                       file2 = file1\<lparr>inoFileHandles := 1\<rparr>;
                       fs1 = modifyInode dk (touch (clk (t + 1))) fs
                   in case insertInode fs1 dk file2 of (fs2, p) \<Rightarrow>
                        (let hID = nextHandleID fs2;
                             fs3 = fs2\<lparr>nextHandleID := incr64 (nextHandleID fs2)\<rparr>;
                             fs4 = fs3\<lparr>fileHandles := (fileHandles fs3)(hID \<mapsto> fh)\<rparr>
                         in NewFusera_files clk dk files (fs4, t + 2)))))"



section \<open>Definitions for the statements\<close>

text \<open>
  The size \<open>ListXattr\<close> needs: every name and its terminating NUL. \<open>fitNames\<close> are the
  names that are copied into a destination with \<open>space\<close> bytes left: in order, each name
  that still fits with its NUL. \<open>packNames\<close> is their layout, back to back.
\<close>

definition xattrSize :: "string list \<Rightarrow> nat" where
  "xattrSize names = sum_list (map (\<lambda>n. length n + 1) names)"

fun fitNames :: "nat \<Rightarrow> string list \<Rightarrow> string list" where
  "fitNames space [] = []"
| "fitNames space (n # ns) =
     (if length n + 1 \<le> space then n # fitNames (space - (length n + 1)) ns
      else fitNames space ns)"

definition packNames :: "string list \<Rightarrow> string" where
  "packNames names = concat (map (\<lambda>n. n @ [CHR 0x00]) names)"

text \<open>The inode that \<open>insertInodeFromDirEntry\<close> makes for an entry, before it gets its id.\<close>

definition newInodeOf :: "InodePtr \<Rightarrow> Inode \<Rightarrow> DirHandleEntry \<Rightarrow> Inode" where
  "newInodeOf pk parent entry =
     (setStorageClass (en_StorageClass entry) (setETag (en_ETag entry)
        (if en_Type entry = DT_Directory
         then ToDir (NewInode (Some pk) (en_Name entry) (getChildName parent (en_Name entry)))
         else (NewInode (Some pk) (en_Name entry) (getChildName parent (en_Name entry)))
                \<lparr>Attributes := en_Attributes entry\<rparr>)))\<lparr>refcnt := 0\<rparr>"

text \<open>The inode that \<open>insertInodeFromDirEntry\<close> makes of a child it has found.\<close>

definition mergedInodeOf :: "Inode \<Rightarrow> DirHandleEntry \<Rightarrow> Time \<Rightarrow> Inode" where
  "mergedInodeOf inode entry now =
     (setStorageClass (en_StorageClass entry) (setETag (en_ETag entry) inode))
        \<lparr>KnownSize := Some (Size (en_Attributes entry)),
          Attributes := (Attributes inode)\<lparr>Mtime := Mtime (en_Attributes entry)\<rparr>,
          AttrTime := now\<rparr>"

text \<open>
  The two times of a directory that \<open>ReadDir\<close> may set: the time of its last complete
  listing and its own mtime.
\<close>

definition dirTimes :: "Fusera \<Rightarrow> InodePtr \<Rightarrow> (Time \<times> Time) option" where
  "dirTimes fs p = map_option (\<lambda>i. (DirTime (dir i), Mtime (Attributes i))) (deref fs p)"



section \<open>A worked example\<close>

text \<open>
  The filesystem of the spec's scenario: one accession with two files of declared sizes
  \<open>"100"\<close> and \<open>"200"\<close>, the clock reading \<open>t\<close> being \<open>t\<close>.
\<close>

definition exFlags :: FlagStorage where
  "exFlags = \<lparr>StatCacheTTL = 60, TypeCacheTTL = 30\<rparr>"

definition exPayload :: "Accession list" where
  "exPayload =
     [\<lparr>acc_ID = ''SRR1'',
       acc_Files = [\<lparr>nf_Name = ''a'', nf_Link = ''l1'', nf_Size = ''100''\<rparr>,
                    \<lparr>nf_Name = ''b'', nf_Link = ''l2'', nf_Size = ''200''\<rparr>]\<rparr>]"

definition exRoot :: Inode where
  "exRoot = \<lparr>Id' = 1, Name = [], FullName = [], Parent = None, kind = Directory,
      Attributes = \<lparr>Size = 0, Mtime = 0\<rparr>, KnownSize = None, AttrTime = 0,
      dir = \<lparr>DirTime = 0, Children = [(''SRR1'', 1)]\<rparr>, refcnt = 1, s3Metadata = Map.empty,
      Link = [], inoFileHandles = 0\<rparr>"

definition exDir :: Inode where
  "exDir = \<lparr>Id' = 2, Name = ''SRR1'', FullName = ''SRR1'', Parent = Some 0, kind = Directory,
      Attributes = \<lparr>Size = 0, Mtime = 5\<rparr>, KnownSize = None, AttrTime = 0,
      dir = \<lparr>DirTime = 0, Children = [(''a'', 2), (''b'', 3)]\<rparr>, refcnt = 1,
      s3Metadata = Map.empty, Link = [], inoFileHandles = 0\<rparr>"

definition exFileA :: Inode where
  "exFileA = \<lparr>Id' = 3, Name = ''a'', FullName = ''SRR1/a'', Parent = Some 1, kind = File,
      Attributes = \<lparr>Size = 100, Mtime = 2\<rparr>, KnownSize = None, AttrTime = 0,
      dir = \<lparr>DirTime = 0, Children = []\<rparr>, refcnt = 1,
      s3Metadata = Map.empty, Link = ''l1'', inoFileHandles = 1\<rparr>"

definition exFileB :: Inode where
  "exFileB = \<lparr>Id' = 4, Name = ''b'', FullName = ''SRR1/b'', Parent = Some 1, kind = File,
      Attributes = \<lparr>Size = 200, Mtime = 4\<rparr>, KnownSize = None, AttrTime = 0,
      dir = \<lparr>DirTime = 0, Children = []\<rparr>, refcnt = 1,
      s3Metadata = Map.empty, Link = ''l2'', inoFileHandles = 1\<rparr>"

definition exFs :: Fusera where
  "exFs = \<lparr>accs = exPayload, flags = exFlags, umask = 82,
      rootAttrs = \<lparr>Size = 4096, Mtime = 0\<rparr>, nextInodeID = 5,
      inodes = [1 \<mapsto> 0, 2 \<mapsto> 1, 3 \<mapsto> 2, 4 \<mapsto> 3],
      nextHandleID = 3, dirHandles = Map.empty,
      fileHandles = [1 \<mapsto> \<lparr>fh_inode = 2, fh_dirty = True\<rparr>,
                     2 \<mapsto> \<lparr>fh_inode = 3, fh_dirty = True\<rparr>],
      forgotCnt = 0, heap = [exRoot, exDir, exFileA, exFileB]\<rparr>"

text \<open>
  A listing of the directory \<open>SRR1\<close> of the example, opened under the handle 3: the
  file \<open>a\<close>, which the filesystem knows, then a file \<open>c\<close> that it does not know yet,
  then the end. The clock reads \<open>40 + i\<close> at offset \<open>i\<close>.
\<close>

definition exEntryA :: DirHandleEntry where
  "exEntryA = \<lparr>en_Name = ''a'', en_Inode = 3, en_Type = DT_File, en_Offset = 1,
      en_Attributes = \<lparr>Size = 100, Mtime = 2\<rparr>, en_ETag = None, en_StorageClass = None\<rparr>"

definition exEntryC :: DirHandleEntry where
  "exEntryC = \<lparr>en_Name = ''c'', en_Inode = 0, en_Type = DT_File, en_Offset = 2,
      en_Attributes = \<lparr>Size = 7, Mtime = 9\<rparr>, en_ETag = Some ''t1'', en_StorageClass = None\<rparr>"

definition exListing ::
  "nat \<Rightarrow> Fusera \<Rightarrow> DirHandle \<Rightarrow> DirOffset \<Rightarrow> (error + DirHandleEntry option) \<times> nat" where
  "exListing w fs dh i =
     (if i = 0 then (Inr (Some exEntryA), w)
      else if i = 1 then (Inr (Some exEntryC), w)
      else (Inr None, w))"

definition exClock :: "DirOffset \<Rightarrow> Time" where
  "exClock i = 40 + int i"

definition exFsOpen :: Fusera where
  "exFsOpen = fst (OpenDir exFs 2)"

definition exReadDirOp :: ReadDirOp where
  "exReadDirOp = \<lparr>rd_Handle = 3, rd_Offset = 0, rd_DstLen = 4096, rd_Written = [],
      rd_BytesRead = 0\<rparr>"








section \<open>The example is what NewFusera builds\<close>



lemmas ex_defs = exFs_def exRoot_def exDir_def exFileA_def exFileB_def exFlags_def


section \<open>What holds of every state\<close>








lemma insertInode_eq:
  assumes "pk < length (heap fs)"
  shows "insertInode fs pk inode =
     (fs\<lparr>nextInodeID := incr64 (nextInodeID fs),
         heap := (heap fs)[pk := insertChildUnlocked (length (heap fs))
                                   (inode\<lparr>Id' := nextInodeID fs\<rparr>) (heap fs ! pk)] @
                 [inode\<lparr>Id' := nextInodeID fs\<rparr>],
         inodes := (inodes fs)(nextInodeID fs \<mapsto> length (heap fs))\<rparr>,
      length (heap fs))"
  using assms
  by (simp add: insertInode_def allocateInodeId_def newObject_def modifyInode_def deref_def
      Let_def nth_append list_update_append)


lemma setETag_fields [simp]:
  "Id' (setETag t i) = Id' i" "Parent (setETag t i) = Parent i" "dir (setETag t i) = dir i"
  "refcnt (setETag t i) = refcnt i" "Attributes (setETag t i) = Attributes i"
  "kind (setETag t i) = kind i" "KnownSize (setETag t i) = KnownSize i"
  "AttrTime (setETag t i) = AttrTime i" "Name (setETag t i) = Name i"
  "FullName (setETag t i) = FullName i" "Link (setETag t i) = Link i"
  "inoFileHandles (setETag t i) = inoFileHandles i"
  by (simp_all add: setETag_def split: option.splits)

lemma setStorageClass_fields [simp]:
  "Id' (setStorageClass t i) = Id' i" "Parent (setStorageClass t i) = Parent i"
  "dir (setStorageClass t i) = dir i" "refcnt (setStorageClass t i) = refcnt i"
  "Attributes (setStorageClass t i) = Attributes i" "kind (setStorageClass t i) = kind i"
  "KnownSize (setStorageClass t i) = KnownSize i" "AttrTime (setStorageClass t i) = AttrTime i"
  "Name (setStorageClass t i) = Name i" "FullName (setStorageClass t i) = FullName i"
  "Link (setStorageClass t i) = Link i"
  "inoFileHandles (setStorageClass t i) = inoFileHandles i"
  by (simp_all add: setStorageClass_def split: option.splits)




lemma newInodeOf_fields [simp]:
  "Parent (newInodeOf pk parent entry) = Some pk"
  "Children (dir (newInodeOf pk parent entry)) = []"
  "refcnt (newInodeOf pk parent entry) = 0"
  "Name (newInodeOf pk parent entry) = en_Name entry"
  by (simp_all add: newInodeOf_def NewInode_def ToDir_def)

lemma mergedInodeOf_fields [simp]:
  "Id' (mergedInodeOf inode entry now) = Id' inode"
  "Parent (mergedInodeOf inode entry now) = Parent inode"
  "dir (mergedInodeOf inode entry now) = dir inode"
  "refcnt (mergedInodeOf inode entry now) = refcnt inode"
  "kind (mergedInodeOf inode entry now) = kind inode"
  "Name (mergedInodeOf inode entry now) = Name inode"
  by (simp_all add: mergedInodeOf_def)












lemma modifyInode_fields [simp]:
  "length (heap (modifyInode p f fs)) = length (heap fs)"
  "inodes (modifyInode p f fs) = inodes fs"
  "nextInodeID (modifyInode p f fs) = nextInodeID fs"
  "nextHandleID (modifyInode p f fs) = nextHandleID fs"
  "dirHandles (modifyInode p f fs) = dirHandles fs"
  "fileHandles (modifyInode p f fs) = fileHandles fs"
  "flags (modifyInode p f fs) = flags fs"
  by (simp_all add: modifyInode_def deref_def)

lemma insertInode_fields:
  assumes "pk < length (heap fs)"
  shows "length (heap (fst (insertInode fs pk inode))) = Suc (length (heap fs))"
    "snd (insertInode fs pk inode) = length (heap fs)"
    "dirHandles (fst (insertInode fs pk inode)) = dirHandles fs"
    "fileHandles (fst (insertInode fs pk inode)) = fileHandles fs"
    "nextHandleID (fst (insertInode fs pk inode)) = nextHandleID fs"
    "flags (fst (insertInode fs pk inode)) = flags fs"
  using assms by (simp_all add: insertInode_eq)


lemma length_heap_NewFusera_files:
  assumes "NewFusera_files clk dk files (fs, t) = Inr (fs', t')"
    and "dk < length (heap fs)"
  shows "length (heap fs) \<le> length (heap fs')"
  using assms
proof (induction files arbitrary: fs t)
  case Nil
  then show ?case by simp
next
  case (Cons f files)
  from Cons.prems(2) have d: "deref fs dk = Some (heap fs ! dk)"
    by (simp add: deref_def)
  from Cons.prems(1) d obtain u where u: "ParseUint (nf_Size f) = Some u"
    by (cases "ParseUint (nf_Size f)") (simp_all add: Let_def)
  let ?file = "(NewInode (Some dk) (nf_Name f) (getChildName (heap fs ! dk) (nf_Name f)))
      \<lparr>Link := nf_Link f, Attributes := \<lparr>Size = u, Mtime = clk t\<rparr>, inoFileHandles := 1\<rparr>"
  let ?fs1 = "modifyInode dk (touch (clk (t + 1))) fs"
  let ?fs2 = "fst (insertInode ?fs1 dk ?file)"
  let ?fs4 = "?fs2\<lparr>nextHandleID := incr64 (nextHandleID ?fs2),
      fileHandles := (fileHandles ?fs2)(nextHandleID ?fs2 \<mapsto>
         (NewFileHandle (length (heap fs)))\<lparr>fh_dirty := True\<rparr>)\<rparr>"
  have l2: "length (heap ?fs4) = Suc (length (heap fs))"
    using Cons.prems(2) by (simp add: insertInode_fields)
  have run: "NewFusera_files clk dk files (?fs4, t + 2) = Inr (fs', t')"
    using Cons.prems(1) d u by (simp add: Let_def split: prod.splits)
  have "length (heap ?fs4) \<le> length (heap fs')"
    by (rule Cons.IH [OF run]) (simp add: insertInode_fields Cons.prems(2) less_SucI)
  with l2 show ?case by simp
qed




section \<open>Extended attributes\<close>

lemma xattrSize_simps [simp]:
  "xattrSize [] = 0" "xattrSize (n # ns) = length n + 1 + xattrSize ns"
  by (simp_all add: xattrSize_def)

lemma packNames_simps [simp]:
  "packNames [] = []" "packNames (n # ns) = n @ CHR 0x00 # packNames ns"
  by (simp_all add: packNames_def)

lemma length_packNames: "length (packNames ns) = xattrSize ns"
  by (induction ns) simp_all


lemma xattrSize_fitNames_le_total: "xattrSize (fitNames space ns) \<le> xattrSize ns"
  by (induction ns arbitrary: space) (auto simp: le_SucI trans_le_add2)







section \<open>Attributes\<close>

text \<open>
  C5, as amended. \<open>GetInodeAttributes\<close> of an inode in the table returns the snapshot
  of its attributes and the expiration \<open>now + StatCacheTTL\<close>; of an id that is not in the
  table it panics.
\<close>

theorem GetInodeAttributes_spec:
  "(inodes fs i = Some p \<and> deref fs p = Some inode \<longrightarrow>
      GetInodeAttributes fs i now =
        Inr \<lparr>ga_Attributes = InflateAttributes inode,
             ga_AttributesExpiration = now + StatCacheTTL (flags fs)\<rparr>) \<and>
   (inodes fs i = None \<longrightarrow> GetInodeAttributes fs i now = Inl Panic)"
  by (simp add: GetInodeAttributes_def getInodeOrDie_def Inode_GetAttributes_def)

theorem GetInodeAttributes_spec_witness:
  "GetInodeAttributes exFs 3 1000 =
     Inr \<lparr>ga_Attributes = \<lparr>fa_Size = 100, fa_Mtime = 2, fa_IsDir = False\<rparr>,
          ga_AttributesExpiration = 1060\<rparr> \<and>
   GetInodeAttributes exFs 99 1000 = Inl Panic"
  using GetInodeAttributes_spec [of exFs 3 2 exFileA 1000]
        GetInodeAttributes_spec [of exFs 99 2 exFileA 1000]
  by (simp add: ex_defs InflateAttributes_def deref_def)

text \<open>
  C5 as stated fails on an unknown id: the call panics in \<open>getInodeOrDie\<close>, it does not
  return \<open>ENOENT\<close>.
\<close>

theorem GetInodeAttributes_unknown_panics:
  "inodes exFs 99 = None \<and> GetInodeAttributes exFs 99 1000 = Inl Panic \<and>
   GetInodeAttributes exFs 99 1000 \<noteq> Inl ENOENT"
  by (simp add: GetInodeAttributes_def getInodeOrDie_def exFs_def)

section \<open>Lookup\<close>

lemma deref_heap_update:
  "deref (fs\<lparr>heap := (heap fs)[c := x]\<rparr>) q =
     (if q = c \<and> c < length (heap fs) then Some x else deref fs q)"
  by (simp add: deref_def)

lemma modifyInode_Some:
  "deref fs c = Some x \<Longrightarrow> modifyInode c f fs = fs\<lparr>heap := (heap fs)[c := f x]\<rparr>"
  by (simp add: modifyInode_def)

text \<open>
  C3. \<open>LookUpInode\<close> on a parent in the table: when the parent's child map has the
  name, the child's refcount grows by one and nothing else changes, the entry carries the
  child's id, its attributes and the expirations \<open>now1 + StatCacheTTL\<close> and
  \<open>now2 + TypeCacheTTL\<close>, and a second lookup of the same pair returns the same id (the
  refcount then being two more than at the start); when the child map has no such name,
  the call returns \<open>ENOENT\<close> and the filesystem is as it was.
\<close>

theorem LookUpInode_spec:
  assumes "inodes fs i = Some pp" and "deref fs pp = Some parent"
  shows "(map_of (Children (dir parent)) name = Some c \<and> deref fs c = Some child \<longrightarrow>
            LookUpInode fs i name now1 now2 =
              (fs\<lparr>heap := (heap fs)[c := child\<lparr>refcnt := refcnt child + 1\<rparr>]\<rparr>,
               Inr \<lparr>ce_Child = Id' child, ce_Attributes = InflateAttributes child,
                    ce_AttributesExpiration = now1 + StatCacheTTL (flags fs),
                    ce_EntryExpiration = now2 + TypeCacheTTL (flags fs)\<rparr>) \<and>
            (\<exists>fs2 e2. LookUpInode (fst (LookUpInode fs i name now1 now2)) i name now3 now4 =
                         (fs2, Inr e2) \<and>
                       ce_Child e2 = Id' child \<and>
                       map_option refcnt (deref fs2 c) = Some (refcnt child + 2))) \<and>
         (map_of (Children (dir parent)) name = None \<longrightarrow>
            LookUpInode fs i name now1 now2 = (fs, Inl ENOENT))"
proof (intro conjI impI)
  assume "map_of (Children (dir parent)) name = None"
  with assms show "LookUpInode fs i name now1 now2 = (fs, Inl ENOENT)"
    by (simp add: LookUpInode_def getInodeOrDie_def findChildUnlockedFull_def)
next
  assume h: "map_of (Children (dir parent)) name = Some c \<and> deref fs c = Some child"
  let ?fs1 = "fs\<lparr>heap := (heap fs)[c := child\<lparr>refcnt := refcnt child + 1\<rparr>]\<rparr>"
  from h have clt: "c < length (heap fs)"
    by (simp add: deref_def split: if_splits)
  from assms h
  show first: "LookUpInode fs i name now1 now2 =
          (?fs1,
           Inr \<lparr>ce_Child = Id' child, ce_Attributes = InflateAttributes child,
                ce_AttributesExpiration = now1 + StatCacheTTL (flags fs),
                ce_EntryExpiration = now2 + TypeCacheTTL (flags fs)\<rparr>)"
    by (simp add: LookUpInode_def getInodeOrDie_def findChildUnlockedFull_def Ref_def
          InflateAttributes_def modifyInode_Some Let_def)
  obtain parent1 where p1: "deref ?fs1 pp = Some parent1"
    and ch: "Children (dir parent1) = Children (dir parent)"
    using assms h clt by (cases "pp = c") (auto simp: deref_heap_update)
  have c1: "deref ?fs1 c = Some (child\<lparr>refcnt := refcnt child + 1\<rparr>)"
    using clt by (simp add: deref_heap_update)
  have i1: "inodes ?fs1 i = Some pp"
    using assms by simp
  from i1 p1 ch c1 h
  have "LookUpInode ?fs1 i name now3 now4 =
          (?fs1\<lparr>heap := (heap ?fs1)[c := child\<lparr>refcnt := refcnt child + 2\<rparr>]\<rparr>,
           Inr \<lparr>ce_Child = Id' child, ce_Attributes = InflateAttributes child,
                ce_AttributesExpiration = now3 + StatCacheTTL (flags fs),
                ce_EntryExpiration = now4 + TypeCacheTTL (flags fs)\<rparr>)"
    by (simp add: LookUpInode_def getInodeOrDie_def findChildUnlockedFull_def Ref_def
          InflateAttributes_def modifyInode_Some Let_def)
  with first clt
  show "\<exists>fs2 e2. LookUpInode (fst (LookUpInode fs i name now1 now2)) i name now3 now4 =
                         (fs2, Inr e2) \<and>
                       ce_Child e2 = Id' child \<and>
                       map_option refcnt (deref fs2 c) = Some (refcnt child + 2)"
    by (simp add: deref_def)
qed

theorem LookUpInode_spec_witness:
  "snd (LookUpInode exFs 2 ''a'' 1000 1001) =
      Inr \<lparr>ce_Child = 3, ce_Attributes = \<lparr>fa_Size = 100, fa_Mtime = 2, fa_IsDir = False\<rparr>,
           ce_AttributesExpiration = 1060, ce_EntryExpiration = 1031\<rparr> \<and>
   map_option refcnt (deref exFs 2) = Some 1 \<and>
   map_option refcnt (deref (fst (LookUpInode exFs 2 ''a'' 1000 1001)) 2) = Some 2 \<and>
   (\<exists>fs2 e2. LookUpInode (fst (LookUpInode exFs 2 ''a'' 1000 1001)) 2 ''a'' 2000 2001 =
                (fs2, Inr e2) \<and> ce_Child e2 = 3 \<and>
              map_option refcnt (deref fs2 2) = Some 3) \<and>
   LookUpInode exFs 2 ''zz'' 1000 1001 = (exFs, Inl ENOENT)"
proof -
  have i: "inodes exFs 2 = Some 1"
    by (simp add: exFs_def)
  have p: "deref exFs 1 = Some exDir"
    by (simp add: exFs_def deref_def)
  have hit: "map_of (Children (dir exDir)) ''a'' = Some 2 \<and> deref exFs 2 = Some exFileA"
    by (simp add: exFs_def exDir_def deref_def)
  have miss: "map_of (Children (dir exDir)) ''zz'' = None"
    by (simp add: exDir_def)
  note t = LookUpInode_spec [OF i p, of _ 2 exFileA 1000 1001 2000 2001]
  from t [of "''a''"] hit
  have first: "LookUpInode exFs 2 ''a'' 1000 1001 =
      (exFs\<lparr>heap := (heap exFs)[2 := exFileA\<lparr>refcnt := refcnt exFileA + 1\<rparr>]\<rparr>,
       Inr \<lparr>ce_Child = Id' exFileA, ce_Attributes = InflateAttributes exFileA,
            ce_AttributesExpiration = 1000 + StatCacheTTL (flags exFs),
            ce_EntryExpiration = 1001 + TypeCacheTTL (flags exFs)\<rparr>)"
    by blast
  from t [of "''a''"] hit obtain fs2 e2 where second:
    "LookUpInode (fst (LookUpInode exFs 2 ''a'' 1000 1001)) 2 ''a'' 2000 2001 = (fs2, Inr e2)"
    "ce_Child e2 = Id' exFileA"
    "map_option refcnt (deref fs2 2) = Some (refcnt exFileA + 2)"
    by blast
  from t [of "''zz''"] miss
  have third: "LookUpInode exFs 2 ''zz'' 1000 1001 = (exFs, Inl ENOENT)"
    by blast
  have c1: "snd (LookUpInode exFs 2 ''a'' 1000 1001) =
      Inr \<lparr>ce_Child = 3, ce_Attributes = \<lparr>fa_Size = 100, fa_Mtime = 2, fa_IsDir = False\<rparr>,
           ce_AttributesExpiration = 1060, ce_EntryExpiration = 1031\<rparr> \<and>
     map_option refcnt (deref exFs 2) = Some 1 \<and>
     map_option refcnt (deref (fst (LookUpInode exFs 2 ''a'' 1000 1001)) 2) = Some 2"
    unfolding first
    by (simp add: exFileA_def InflateAttributes_def exFs_def exFlags_def deref_def)
  have c2: "ce_Child e2 = 3 \<and> map_option refcnt (deref fs2 2) = Some 3"
    using second(2,3) by (auto simp: exFileA_def)
  from c1 second(1) c2 third show ?thesis
    by blast
qed

section \<open>Inode ids\<close>











end
